theory Spec2Isabelle
  imports Main
begin

section \<open>Data model of \<^verbatim>\<open>src/app.py\<close>\<close>

text \<open>
  An activity is the inner dictionary of the \<^verbatim>\<open>activities\<close> table: a description, a
  schedule, a capacity and the list of participant emails. Python strings are modelled
  as \<^typ>\<open>string\<close>, Python integers as \<^typ>\<open>int\<close>. The handlers compare strings, test
  them for emptiness and concatenate them, and do nothing else with them.
\<close>

record activity =
  description :: string
  schedule :: string
  max_participants :: int
  participants :: "string list"

text \<open>
  The registry is a Python \<^verbatim>\<open>dict\<close> from activity name to activity. It is kept as an
  association list in insertion order, which is also the order in which the listing
  is returned; \<^const>\<open>map_of\<close> is the lookup \<^verbatim>\<open>activities[activity_name]\<close>.
\<close>

type_synonym registry = "(string \<times> activity) list"

text \<open>
  \<^verbatim>\<open>users.json\<close> as \<^verbatim>\<open>load_users\<close> returns it: an object whose \<^verbatim>\<open>"teachers"\<close> member maps
  a username to an object holding the password hash. The file is read anew on every
  call and never written, so its content is a parameter of the functions that read it.
  Only the keys of the table are read by the session resolver.
\<close>

record teacher =
  password :: string

record users =
  teachers :: "(string \<times> teacher) list"

text \<open>
  \<^verbatim>\<open>HTTPException(status_code=..., detail=...)\<close> and the \<^verbatim>\<open>{"message": ...}\<close> body of a
  successful call. The names of the specification are: Unauthorized is status 401,
  NotFound is 404, AlreadyRegistered and NotRegistered are both 400 and differ in
  their detail.
\<close>

datatype http_exception = HTTPException (status_code: int) (detail: string)

record reply =
  message :: string

text \<open>The part of a request the handlers read: the optional \<^verbatim>\<open>session\<close> cookie.\<close>

record request =
  session :: "string option"

section \<open>Session resolver\<close>

text \<open>
  Python's \<^verbatim>\<open>not x\<close> on an \<^verbatim>\<open>Optional[str]\<close>: true for \<^verbatim>\<open>None\<close> and for the empty string.
\<close>

fun py_not :: "string option \<Rightarrow> bool" where
  "py_not None = True"
| "py_not (Some s) = (s = [])"

text \<open>
  \<^verbatim>\<open>
  async def get_current_user(session: Optional[str] = Cookie(None)) -> Optional[str]:
      if not session:
          return None
      users = load_users()
      if session in users["teachers"]:
          return session
      return None
  \<close>
\<close>

definition get_current_user :: "users \<Rightarrow> string option \<Rightarrow> string option" where
  "get_current_user us sess =
     (if py_not sess then None
      else case sess of
        None \<Rightarrow> None
      | Some s \<Rightarrow> if map_of (teachers us) s \<noteq> None then Some s else None)"

section \<open>Activity registry\<close>

text \<open>The table the module creates when it is loaded.\<close>

definition activities :: registry where
  "activities =
    [(''Chess Club'',
        \<lparr>description = ''Learn strategies and compete in chess tournaments'',
         schedule = ''Fridays, 3:30 PM - 5:00 PM'',
         max_participants = 12,
         participants = [''michael@mergington.edu'', ''daniel@mergington.edu'']\<rparr>),
     (''Programming Class'',
        \<lparr>description = ''Learn programming fundamentals and build software projects'',
         schedule = ''Tuesdays and Thursdays, 3:30 PM - 4:30 PM'',
         max_participants = 20,
         participants = [''emma@mergington.edu'', ''sophia@mergington.edu'']\<rparr>),
     (''Gym Class'',
        \<lparr>description = ''Physical education and sports activities'',
         schedule = ''Mondays, Wednesdays, Fridays, 2:00 PM - 3:00 PM'',
         max_participants = 30,
         participants = [''john@mergington.edu'', ''olivia@mergington.edu'']\<rparr>),
     (''Soccer Team'',
        \<lparr>description = ''Join the school soccer team and compete in matches'',
         schedule = ''Tuesdays and Thursdays, 4:00 PM - 5:30 PM'',
         max_participants = 22,
         participants = [''liam@mergington.edu'', ''noah@mergington.edu'']\<rparr>),
     (''Basketball Team'',
        \<lparr>description = ''Practice and play basketball with the school team'',
         schedule = ''Wednesdays and Fridays, 3:30 PM - 5:00 PM'',
         max_participants = 15,
         participants = [''ava@mergington.edu'', ''mia@mergington.edu'']\<rparr>),
     (''Art Club'',
        \<lparr>description = ''Explore your creativity through painting and drawing'',
         schedule = ''Thursdays, 3:30 PM - 5:00 PM'',
         max_participants = 15,
         participants = [''amelia@mergington.edu'', ''harper@mergington.edu'']\<rparr>),
     (''Drama Club'',
        \<lparr>description = ''Act, direct, and produce plays and performances'',
         schedule = ''Mondays and Wednesdays, 4:00 PM - 5:30 PM'',
         max_participants = 20,
         participants = [''ella@mergington.edu'', ''scarlett@mergington.edu'']\<rparr>),
     (''Math Club'',
        \<lparr>description = ''Solve challenging problems and participate in math competitions'',
         schedule = ''Tuesdays, 3:30 PM - 4:30 PM'',
         max_participants = 10,
         participants = [''james@mergington.edu'', ''benjamin@mergington.edu'']\<rparr>),
     (''Debate Team'',
        \<lparr>description = ''Develop public speaking and argumentation skills'',
         schedule = ''Fridays, 4:00 PM - 5:30 PM'',
         max_participants = 12,
         participants = [''charlotte@mergington.edu'', ''henry@mergington.edu'']\<rparr>)]"

text \<open>\<^verbatim>\<open>def get_activities(): return activities\<close>\<close>

definition get_activities :: "registry \<Rightarrow> registry" where
  "get_activities acts = acts"

text \<open>
  \<^verbatim>\<open>activity = activities[activity_name]\<close> is a reference to the stored dictionary, and
  \<^verbatim>\<open>activity["participants"].append(email)\<close> or \<^verbatim>\<open>.remove(email)\<close> changes its list in
  place. In the model the entry the lookup resolves to gets the changed list and
  every other entry, and the order of the entries, stays as it is.
\<close>

fun mutate_participants ::
  "(string list \<Rightarrow> string list) \<Rightarrow> string \<Rightarrow> registry \<Rightarrow> registry" where
  "mutate_participants f name [] = []"
| "mutate_participants f name ((k, a) # rest) =
     (if k = name then (k, a\<lparr>participants := f (participants a)\<rparr>) # rest
      else (k, a) # mutate_participants f name rest)"

text \<open>
  \<^verbatim>\<open>
  async def signup_for_activity(activity_name, email, current_user = Depends(get_current_user)):
      if not current_user:
          raise HTTPException(status_code=401,
                              detail="Please log in as a teacher to register students")
      if activity_name not in activities:
          raise HTTPException(status_code=404, detail="Activity not found")
      activity = activities[activity_name]
      if email in activity["participants"]:
          raise HTTPException(status_code=400, detail="Student is already signed up")
      activity["participants"].append(email)
      return {"message": f"Signed up {email} for {activity_name}"}
  \<close>
  The handler takes the registry and returns it with its result: the exception raised
  or the body returned.
\<close>

definition signup_for_activity ::
  "string \<Rightarrow> string \<Rightarrow> string option \<Rightarrow> registry \<Rightarrow> (http_exception + reply) \<times> registry" where
  "signup_for_activity activity_name email current_user acts =
     (if py_not current_user then
        (Inl (HTTPException 401 ''Please log in as a teacher to register students''), acts)
      else case map_of acts activity_name of
        None \<Rightarrow> (Inl (HTTPException 404 ''Activity not found''), acts)
      | Some activity \<Rightarrow>
          if email \<in> set (participants activity) then
            (Inl (HTTPException 400 ''Student is already signed up''), acts)
          else
            (Inr \<lparr>message = ''Signed up '' @ email @ '' for '' @ activity_name\<rparr>,
             mutate_participants (\<lambda>ps. ps @ [email]) activity_name acts))"

text \<open>
  \<^verbatim>\<open>
  def unregister_from_activity(activity_name, email):
      if activity_name not in activities:
          raise HTTPException(status_code=404, detail="Activity not found")
      activity = activities[activity_name]
      if email not in activity["participants"]:
          raise HTTPException(status_code=400,
                              detail="Student is not signed up for this activity")
      activity["participants"].remove(email)
      return {"message": f"Unregistered {email} from {activity_name}"}
  \<close>
  \<^verbatim>\<open>list.remove\<close> deletes the first occurrence, which is \<^const>\<open>remove1\<close>.
\<close>

definition unregister_from_activity ::
  "string \<Rightarrow> string \<Rightarrow> registry \<Rightarrow> (http_exception + reply) \<times> registry" where
  "unregister_from_activity activity_name email acts =
     (case map_of acts activity_name of
        None \<Rightarrow> (Inl (HTTPException 404 ''Activity not found''), acts)
      | Some activity \<Rightarrow>
          if email \<notin> set (participants activity) then
            (Inl (HTTPException 400 ''Student is not signed up for this activity''), acts)
          else
            (Inr \<lparr>message = ''Unregistered '' @ email @ '' from '' @ activity_name\<rparr>,
             mutate_participants (remove1 email) activity_name acts))"

section \<open>Routes\<close>

text \<open>
  \<^verbatim>\<open>@app.post("/activities/{activity_name}/signup")\<close> resolves the parameter
  \<^verbatim>\<open>current_user\<close> through \<^verbatim>\<open>Depends(get_current_user)\<close>, which reads the \<^verbatim>\<open>session\<close> cookie
  of the request. \<^verbatim>\<open>@app.delete("/activities/{activity_name}/unregister")\<close> declares
  the path and query parameters only, so nothing of the request's cookies reaches
  the handler.
\<close>

definition signup_route ::
  "users \<Rightarrow> request \<Rightarrow> string \<Rightarrow> string \<Rightarrow> registry \<Rightarrow> (http_exception + reply) \<times> registry" where
  "signup_route us req activity_name email acts =
     signup_for_activity activity_name email (get_current_user us (session req)) acts"

definition unregister_route ::
  "users \<Rightarrow> request \<Rightarrow> string \<Rightarrow> string \<Rightarrow> registry \<Rightarrow> (http_exception + reply) \<times> registry" where
  "unregister_route us req activity_name email acts =
     unregister_from_activity activity_name email acts"

text \<open>Every participants list of the registry is free of duplicates.\<close>

definition unique_participants :: "registry \<Rightarrow> bool" where
  "unique_participants acts = list_all (\<lambda>(k, a). distinct (participants a)) acts"

text \<open>A registry whose only activity already holds more participants than its capacity.\<close>

definition full_club :: registry where
  "full_club =
    [(''Tiny Club'',
        \<lparr>description = ''d'', schedule = ''s'', max_participants = 1,
         participants = [''a@x.edu'', ''b@x.edu'']\<rparr>)]"

section \<open>Properties of the lookup and of the in-place update\<close>

lemma map_of_mutate_same:
  "map_of acts name = Some a \<Longrightarrow>
   map_of (mutate_participants f name acts) name = Some (a\<lparr>participants := f (participants a)\<rparr>)"
  by (induction acts) (auto split: if_splits)

lemma map_of_mutate_other:
  "name' \<noteq> name \<Longrightarrow> map_of (mutate_participants f name acts) name' = map_of acts name'"
  by (induction acts) auto

lemma mutate_absent:
  "map_of acts name = None \<Longrightarrow> mutate_participants f name acts = acts"
  by (induction acts) (auto split: if_splits)

lemma mutate_keys:
  "map fst (mutate_participants f name acts) = map fst acts"
  by (induction acts) auto

lemma mutate_mutate:
  "mutate_participants g name (mutate_participants f name acts) =
   mutate_participants (g \<circ> f) name acts"
  by (induction acts) auto

lemma mutate_identity:
  "map_of acts name = Some a \<Longrightarrow> f (participants a) = participants a \<Longrightarrow>
   mutate_participants f name acts = acts"
  by (induction acts) (auto split: if_splits)

lemma mutate_unique:
  "unique_participants acts \<Longrightarrow>
   (\<And>a. map_of acts name = Some a \<Longrightarrow> distinct (participants a) \<Longrightarrow> distinct (f (participants a))) \<Longrightarrow>
   unique_participants (mutate_participants f name acts)"
  by (induction acts) (auto simp: unique_participants_def split: if_splits)

lemma resolver_nonempty:
  "get_current_user us sess = Some u \<Longrightarrow> \<not> py_not (Some u) \<and> sess = Some u"
  by (cases sess) (auto simp: get_current_user_def split: if_splits)

lemma signup_route_resolved:
  "get_current_user us (session req) = Some u \<Longrightarrow>
   u \<noteq> [] \<and> signup_route us req activity_name email acts =
     signup_for_activity activity_name email (Some u) acts"
  by (cases "session req") (auto simp: signup_route_def get_current_user_def split: if_splits)

lemma signup_success:
  assumes "map_of acts activity_name = Some a" and "email \<notin> set (participants a)" and "u \<noteq> []"
  shows "signup_for_activity activity_name email (Some u) acts =
           (Inr \<lparr>message = ''Signed up '' @ email @ '' for '' @ activity_name\<rparr>,
            mutate_participants (\<lambda>ps. ps @ [email]) activity_name acts)"
  using assms by (simp add: signup_for_activity_def)

lemma unregister_success:
  assumes "map_of acts activity_name = Some a" and "email \<in> set (participants a)"
  shows "unregister_from_activity activity_name email acts =
           (Inr \<lparr>message = ''Unregistered '' @ email @ '' from '' @ activity_name\<rparr>,
            mutate_participants (remove1 email) activity_name acts)"
  using assms by (simp add: unregister_from_activity_def)

lemma remove1_appended: "x \<notin> set xs \<Longrightarrow> remove1 x (xs @ [x]) = xs"
  by (induction xs) auto

lemma signup_unique:
  "unique_participants acts \<Longrightarrow> unique_participants (snd (signup_for_activity n e cu acts))"
  by (auto simp: signup_for_activity_def split: option.splits intro!: mutate_unique)

lemma unregister_unique:
  "unique_participants acts \<Longrightarrow> unique_participants (snd (unregister_from_activity n e acts))"
  by (auto simp: unregister_from_activity_def split: option.splits intro!: mutate_unique)

lemma initial_unique: "unique_participants activities"
  by (simp add: activities_def unique_participants_def)

section \<open>Signup\<close>

text \<open>
  An acting user is authenticated when the resolver returned a username. By
  \<open>resolver_nonempty\<close> and \<open>signup_route_resolved\<close> such a username is never empty, so
  the handler sees \<open>Some u\<close> with \<open>u \<noteq> []\<close>; the theorems below are stated for every such
  value of \<^verbatim>\<open>current_user\<close>.
\<close>

text \<open>
  C1: whatever the registry, the activity name and the email are, signup without an
  acting user raises 401 (Unauthorized) and leaves the registry as it was. This is so
  for the handler called with \<^verbatim>\<open>None\<close> and for the route whenever the resolver finds no
  user for the request's cookie.
\<close>

theorem signup_unauthorized:
  "signup_for_activity activity_name email None acts =
     (Inl (HTTPException 401 ''Please log in as a teacher to register students''), acts)
   \<and> (get_current_user us (session req) = None \<longrightarrow>
        signup_route us req activity_name email acts =
          (Inl (HTTPException 401 ''Please log in as a teacher to register students''), acts))"
  by (simp add: signup_for_activity_def signup_route_def)

theorem signup_unauthorized_witness:
  "get_current_user \<lparr>teachers = [(''alice'', \<lparr>password = ''h''\<rparr>)]\<rparr>
     (session \<lparr>session = Some ''mallory''\<rparr>) = None
   \<and> signup_route \<lparr>teachers = [(''alice'', \<lparr>password = ''h''\<rparr>)]\<rparr> \<lparr>session = Some ''mallory''\<rparr>
        ''Chess Club'' ''michael@mergington.edu'' activities =
       (Inl (HTTPException 401 ''Please log in as a teacher to register students''), activities)
   \<and> signup_for_activity ''No Such Club'' ''new@mergington.edu'' None activities =
       (Inl (HTTPException 401 ''Please log in as a teacher to register students''), activities)"
proof -
  have h: "get_current_user \<lparr>teachers = [(''alice'', \<lparr>password = ''h''\<rparr>)]\<rparr>
     (session \<lparr>session = Some ''mallory''\<rparr>) = None"
    by (simp add: get_current_user_def)
  show ?thesis
    using h
      signup_unauthorized [of "''Chess Club''" "''michael@mergington.edu''" activities
        "\<lparr>teachers = [(''alice'', \<lparr>password = ''h''\<rparr>)]\<rparr>" "\<lparr>session = Some ''mallory''\<rparr>"]
      signup_unauthorized [of "''No Such Club''" "''new@mergington.edu''" activities
        "\<lparr>teachers = [(''alice'', \<lparr>password = ''h''\<rparr>)]\<rparr>" "\<lparr>session = Some ''mallory''\<rparr>"]
    by blast
qed

text \<open>
  C2: for an activity name that is not a key of the registry, signup by an
  authenticated user and unregister both raise 404 (NotFound), for every email.
\<close>

theorem unknown_activity_not_found:
  assumes "activity_name \<notin> fst ` set acts" and "u \<noteq> []"
  shows "signup_for_activity activity_name email (Some u) acts =
           (Inl (HTTPException 404 ''Activity not found''), acts)
         \<and> unregister_from_activity activity_name email acts =
           (Inl (HTTPException 404 ''Activity not found''), acts)"
proof -
  from assms(1) have "map_of acts activity_name = None"
    by (simp add: map_of_eq_None_iff)
  with assms(2) show ?thesis
    by (simp add: signup_for_activity_def unregister_from_activity_def)
qed

theorem unknown_activity_not_found_witness:
  "''Unknown Club'' \<notin> fst ` set activities \<and> ''teacher'' \<noteq> []
   \<and> signup_for_activity ''Unknown Club'' ''x@mergington.edu'' (Some ''teacher'') activities =
       (Inl (HTTPException 404 ''Activity not found''), activities)
   \<and> unregister_from_activity ''Unknown Club'' ''x@mergington.edu'' activities =
       (Inl (HTTPException 404 ''Activity not found''), activities)"
proof -
  have k: "''Unknown Club'' \<notin> fst ` set activities"
    by (simp add: activities_def)
  have u: "''teacher'' \<noteq> []"
    by simp
  from k u unknown_activity_not_found [OF k u, of "''x@mergington.edu''"] show ?thesis
    by blast
qed

text \<open>
  C3: for an existing activity and an email that is not among its participants, two
  signups in a row by authenticated users give success first and then 400 with the
  detail of AlreadyRegistered.
\<close>

theorem signup_twice:
  assumes "map_of acts activity_name = Some a" and "email \<notin> set (participants a)"
    and "u \<noteq> []" and "u' \<noteq> []"
  shows "fst (signup_for_activity activity_name email (Some u) acts) =
           Inr \<lparr>message = ''Signed up '' @ email @ '' for '' @ activity_name\<rparr>
         \<and> signup_for_activity activity_name email (Some u')
             (snd (signup_for_activity activity_name email (Some u) acts)) =
           (Inl (HTTPException 400 ''Student is already signed up''),
            snd (signup_for_activity activity_name email (Some u) acts))"
proof -
  let ?acts' = "mutate_participants (\<lambda>ps. ps @ [email]) activity_name acts"
  have first: "signup_for_activity activity_name email (Some u) acts =
      (Inr \<lparr>message = ''Signed up '' @ email @ '' for '' @ activity_name\<rparr>, ?acts')"
    using assms(1-3) by (rule signup_success)
  have "map_of ?acts' activity_name = Some (a\<lparr>participants := participants a @ [email]\<rparr>)"
    using assms(1) by (rule map_of_mutate_same)
  then have second: "signup_for_activity activity_name email (Some u') ?acts' =
      (Inl (HTTPException 400 ''Student is already signed up''), ?acts')"
    using assms(4) by (simp add: signup_for_activity_def)
  from first second show ?thesis by simp
qed

theorem signup_twice_witness:
  "map_of activities ''Chess Club'' =
     Some \<lparr>description = ''Learn strategies and compete in chess tournaments'',
           schedule = ''Fridays, 3:30 PM - 5:00 PM'',
           max_participants = 12,
           participants = [''michael@mergington.edu'', ''daniel@mergington.edu'']\<rparr>
   \<and> ''new@mergington.edu'' \<notin> set [''michael@mergington.edu'', ''daniel@mergington.edu'']
   \<and> ''teacher'' \<noteq> []
   \<and> fst (signup_for_activity ''Chess Club'' ''new@mergington.edu'' (Some ''teacher'') activities) =
       Inr \<lparr>message = ''Signed up new@mergington.edu for Chess Club''\<rparr>
   \<and> fst (signup_for_activity ''Chess Club'' ''new@mergington.edu'' (Some ''teacher'')
       (snd (signup_for_activity ''Chess Club'' ''new@mergington.edu'' (Some ''teacher'') activities))) =
       Inl (HTTPException 400 ''Student is already signed up'')"
proof -
  let ?a = "\<lparr>description = ''Learn strategies and compete in chess tournaments'',
           schedule = ''Fridays, 3:30 PM - 5:00 PM'',
           max_participants = 12,
           participants = [''michael@mergington.edu'', ''daniel@mergington.edu'']\<rparr>"
  have l: "map_of activities ''Chess Club'' = Some ?a"
    by (simp add: activities_def)
  have m: "''new@mergington.edu'' \<notin> set (participants ?a)"
    by simp
  have u: "''teacher'' \<noteq> []"
    by simp
  from signup_twice [OF l m u u] l m u show ?thesis
    by simp
qed

text \<open>
  C4: for an existing activity and an email that is not among its participants, signup
  by an authenticated user returns the confirmation message, and afterwards the
  activity's participants are the old list with the email appended at the end. Nothing
  is assumed about \<^const>\<open>max_participants\<close>: the witness signs a third student up for an
  activity of capacity one.
\<close>

theorem signup_appends:
  assumes "map_of acts activity_name = Some a" and "email \<notin> set (participants a)"
    and "u \<noteq> []"
  shows "fst (signup_for_activity activity_name email (Some u) acts) =
           Inr \<lparr>message = ''Signed up '' @ email @ '' for '' @ activity_name\<rparr>
         \<and> map_of (snd (signup_for_activity activity_name email (Some u) acts)) activity_name =
           Some (a\<lparr>participants := participants a @ [email]\<rparr>)"
  using assms by (simp add: signup_success map_of_mutate_same)

theorem signup_appends_witness:
  "map_of full_club ''Tiny Club'' =
     Some \<lparr>description = ''d'', schedule = ''s'', max_participants = 1,
           participants = [''a@x.edu'', ''b@x.edu'']\<rparr>
   \<and> ''c@x.edu'' \<notin> set [''a@x.edu'', ''b@x.edu'']
   \<and> ''teacher'' \<noteq> []
   \<and> (1::int) \<le> int (length [''a@x.edu'', ''b@x.edu''])
   \<and> fst (signup_for_activity ''Tiny Club'' ''c@x.edu'' (Some ''teacher'') full_club) =
       Inr \<lparr>message = ''Signed up c@x.edu for Tiny Club''\<rparr>
   \<and> map_of (snd (signup_for_activity ''Tiny Club'' ''c@x.edu'' (Some ''teacher'') full_club))
       ''Tiny Club'' =
       Some \<lparr>description = ''d'', schedule = ''s'', max_participants = 1,
             participants = [''a@x.edu'', ''b@x.edu'', ''c@x.edu'']\<rparr>"
proof -
  let ?a = "\<lparr>description = ''d'', schedule = ''s'', max_participants = 1,
           participants = [''a@x.edu'', ''b@x.edu'']\<rparr>"
  have l: "map_of full_club ''Tiny Club'' = Some ?a"
    by (simp add: full_club_def)
  have m: "''c@x.edu'' \<notin> set (participants ?a)"
    by simp
  have u: "''teacher'' \<noteq> []"
    by simp
  from signup_appends [OF l m u] l m u show ?thesis
    by simp
qed

section \<open>Unregister\<close>

text \<open>
  C5: for an existing activity and an email that is not among its participants, an
  authenticated signup followed by unregister of the same email succeeds twice and
  gives back the registry it started from: the activity's participants in content and
  order, and every other entry.
\<close>

theorem signup_then_unregister:
  assumes "map_of acts activity_name = Some a" and "email \<notin> set (participants a)"
    and "u \<noteq> []"
  shows "fst (signup_for_activity activity_name email (Some u) acts) =
           Inr \<lparr>message = ''Signed up '' @ email @ '' for '' @ activity_name\<rparr>
         \<and> unregister_from_activity activity_name email
             (snd (signup_for_activity activity_name email (Some u) acts)) =
           (Inr \<lparr>message = ''Unregistered '' @ email @ '' from '' @ activity_name\<rparr>, acts)"
proof -
  let ?acts' = "mutate_participants (\<lambda>ps. ps @ [email]) activity_name acts"
  have first: "signup_for_activity activity_name email (Some u) acts =
      (Inr \<lparr>message = ''Signed up '' @ email @ '' for '' @ activity_name\<rparr>, ?acts')"
    using assms by (rule signup_success)
  have "map_of ?acts' activity_name = Some (a\<lparr>participants := participants a @ [email]\<rparr>)"
    using assms(1) by (rule map_of_mutate_same)
  then have second: "unregister_from_activity activity_name email ?acts' =
      (Inr \<lparr>message = ''Unregistered '' @ email @ '' from '' @ activity_name\<rparr>,
       mutate_participants (remove1 email) activity_name ?acts')"
    by (rule unregister_success) simp
  have "mutate_participants (remove1 email) activity_name ?acts' =
      mutate_participants (remove1 email \<circ> (\<lambda>ps. ps @ [email])) activity_name acts"
    by (rule mutate_mutate)
  also have "\<dots> = acts"
    using assms(1) by (rule mutate_identity) (simp add: remove1_appended assms(2))
  finally have restored: "mutate_participants (remove1 email) activity_name ?acts' = acts" .
  from first second restored show ?thesis by simp
qed

theorem signup_then_unregister_witness:
  "map_of activities ''Chess Club'' =
     Some \<lparr>description = ''Learn strategies and compete in chess tournaments'',
           schedule = ''Fridays, 3:30 PM - 5:00 PM'',
           max_participants = 12,
           participants = [''michael@mergington.edu'', ''daniel@mergington.edu'']\<rparr>
   \<and> ''new@mergington.edu'' \<notin> set [''michael@mergington.edu'', ''daniel@mergington.edu'']
   \<and> ''teacher'' \<noteq> []
   \<and> unregister_from_activity ''Chess Club'' ''new@mergington.edu''
       (snd (signup_for_activity ''Chess Club'' ''new@mergington.edu'' (Some ''teacher'') activities)) =
       (Inr \<lparr>message = ''Unregistered new@mergington.edu from Chess Club''\<rparr>, activities)"
proof -
  let ?a = "\<lparr>description = ''Learn strategies and compete in chess tournaments'',
           schedule = ''Fridays, 3:30 PM - 5:00 PM'',
           max_participants = 12,
           participants = [''michael@mergington.edu'', ''daniel@mergington.edu'']\<rparr>"
  have l: "map_of activities ''Chess Club'' = Some ?a"
    by (simp add: activities_def)
  have m: "''new@mergington.edu'' \<notin> set (participants ?a)"
    by simp
  have u: "''teacher'' \<noteq> []"
    by simp
  from signup_then_unregister [OF l m u] l m u show ?thesis
    by simp
qed

text \<open>
  C6: for an existing activity and an email among its participants, the unregister
  route succeeds on a request without any session cookie and deletes the first
  occurrence of the email, which is the only one when the list has no duplicates. The
  route's result is the same for every request: no authorization is checked.
\<close>

theorem unregister_needs_no_session:
  assumes "map_of acts activity_name = Some a" and "email \<in> set (participants a)"
  shows "unregister_route us \<lparr>session = None\<rparr> activity_name email acts =
           (Inr \<lparr>message = ''Unregistered '' @ email @ '' from '' @ activity_name\<rparr>,
            mutate_participants (remove1 email) activity_name acts)
         \<and> map_of (mutate_participants (remove1 email) activity_name acts) activity_name =
           Some (a\<lparr>participants := remove1 email (participants a)\<rparr>)
         \<and> (distinct (participants a) \<longrightarrow> email \<notin> set (remove1 email (participants a)))
         \<and> unregister_route us req activity_name email acts =
           unregister_route us \<lparr>session = None\<rparr> activity_name email acts"
  using assms
  by (simp add: unregister_route_def unregister_success map_of_mutate_same)

theorem unregister_needs_no_session_witness:
  "map_of activities ''Chess Club'' =
     Some \<lparr>description = ''Learn strategies and compete in chess tournaments'',
           schedule = ''Fridays, 3:30 PM - 5:00 PM'',
           max_participants = 12,
           participants = [''michael@mergington.edu'', ''daniel@mergington.edu'']\<rparr>
   \<and> ''michael@mergington.edu'' \<in> set [''michael@mergington.edu'', ''daniel@mergington.edu'']
   \<and> distinct [''michael@mergington.edu'', ''daniel@mergington.edu'']
   \<and> fst (unregister_route \<lparr>teachers = []\<rparr> \<lparr>session = None\<rparr> ''Chess Club''
            ''michael@mergington.edu'' activities) =
       Inr \<lparr>message = ''Unregistered michael@mergington.edu from Chess Club''\<rparr>
   \<and> map_option participants
       (map_of (snd (unregister_route \<lparr>teachers = []\<rparr> \<lparr>session = None\<rparr> ''Chess Club''
                       ''michael@mergington.edu'' activities)) ''Chess Club'') =
       Some [''daniel@mergington.edu'']"
proof -
  let ?a = "\<lparr>description = ''Learn strategies and compete in chess tournaments'',
           schedule = ''Fridays, 3:30 PM - 5:00 PM'',
           max_participants = 12,
           participants = [''michael@mergington.edu'', ''daniel@mergington.edu'']\<rparr>"
  have l: "map_of activities ''Chess Club'' = Some ?a"
    by (simp add: activities_def)
  have m: "''michael@mergington.edu'' \<in> set (participants ?a)"
    by simp
  have d: "distinct (participants ?a)"
    by simp
  from unregister_needs_no_session [OF l m, of "\<lparr>teachers = []\<rparr>" "\<lparr>session = None\<rparr>"] l m d
  show ?thesis
    by simp
qed

section \<open>Session resolver\<close>

text \<open>
  C7, as stated: the resolver returns the cookie value whenever that value is a key of
  the teachers table. It does not for the empty cookie value when the table has the
  empty username: \<^verbatim>\<open>if not session\<close> returns \<^verbatim>\<open>None\<close> before the table is read.
\<close>

theorem get_current_user_empty_cookie_counterexample:
  "'''' \<in> fst ` set (teachers \<lparr>teachers = [('''', \<lparr>password = ''hash''\<rparr>)]\<rparr>)
   \<and> get_current_user \<lparr>teachers = [('''', \<lparr>password = ''hash''\<rparr>)]\<rparr> (Some '''') = None
   \<and> get_current_user \<lparr>teachers = [('''', \<lparr>password = ''hash''\<rparr>)]\<rparr> (Some '''') \<noteq> Some ''''"
  by (simp add: get_current_user_def)

text \<open>
  C7, amended: the resolver returns none when no cookie is present or the cookie value
  is the empty string, returns the cookie value itself when that value is not empty and
  is a key of the teachers table, and returns none for a value that is not a key.
\<close>

theorem get_current_user_cases:
  "get_current_user us None = None
   \<and> get_current_user us (Some []) = None
   \<and> (s \<noteq> [] \<longrightarrow> s \<in> fst ` set (teachers us) \<longrightarrow> get_current_user us (Some s) = Some s)
   \<and> (s \<notin> fst ` set (teachers us) \<longrightarrow> get_current_user us (Some s) = None)"
  by (simp add: get_current_user_def map_of_eq_None_iff)

theorem get_current_user_cases_witness:
  "''alice'' \<noteq> [] \<and> ''alice'' \<in> fst ` set (teachers \<lparr>teachers = [(''alice'', \<lparr>password = ''h''\<rparr>)]\<rparr>)
   \<and> get_current_user \<lparr>teachers = [(''alice'', \<lparr>password = ''h''\<rparr>)]\<rparr> (Some ''alice'') = Some ''alice''
   \<and> ''mallory'' \<notin> fst ` set (teachers \<lparr>teachers = [(''alice'', \<lparr>password = ''h''\<rparr>)]\<rparr>)
   \<and> get_current_user \<lparr>teachers = [(''alice'', \<lparr>password = ''h''\<rparr>)]\<rparr> (Some ''mallory'') = None
   \<and> get_current_user \<lparr>teachers = [(''alice'', \<lparr>password = ''h''\<rparr>)]\<rparr> None = None"
proof -
  let ?us = "\<lparr>teachers = [(''alice'', \<lparr>password = ''h''\<rparr>)]\<rparr>"
  have n: "''alice'' \<noteq> []"
    by simp
  have k: "''alice'' \<in> fst ` set (teachers ?us)"
    by simp
  have o: "''mallory'' \<notin> fst ` set (teachers ?us)"
    by simp
  from get_current_user_cases [of ?us "''alice''"] get_current_user_cases [of ?us "''mallory''"] n k o
  show ?thesis
    by blast
qed

section \<open>Initial state and invariants\<close>

text \<open>
  C8: the initial registry has exactly nine entries, under nine different names, and
  the listing of the initial state holds "Chess Club" with the participants
  michael@mergington.edu and daniel@mergington.edu, in this order.
\<close>

theorem initial_registry:
  "length activities = 9
   \<and> distinct (map fst activities)
   \<and> map_option participants (map_of (get_activities activities) ''Chess Club'') =
       Some [''michael@mergington.edu'', ''daniel@mergington.edu'']"
  by (simp add: activities_def get_activities_def)

text \<open>
  C9: no participants list of the initial registry has a duplicate, and every signup
  and every unregister, failing or not, takes a registry without duplicates to a
  registry without duplicates.
\<close>

theorem participants_stay_unique:
  "unique_participants activities
   \<and> (unique_participants acts \<longrightarrow>
        unique_participants (snd (signup_for_activity activity_name email current_user acts)))
   \<and> (unique_participants acts \<longrightarrow>
        unique_participants (snd (unregister_from_activity activity_name email acts)))"
  by (simp add: initial_unique signup_unique unregister_unique)

theorem participants_stay_unique_witness:
  "unique_participants activities
   \<and> unique_participants
       (snd (signup_for_activity ''Chess Club'' ''new@mergington.edu'' (Some ''teacher'') activities))
   \<and> map_option participants
       (map_of (snd (signup_for_activity ''Chess Club'' ''new@mergington.edu'' (Some ''teacher'')
          activities)) ''Chess Club'') =
       Some [''michael@mergington.edu'', ''daniel@mergington.edu'', ''new@mergington.edu'']
   \<and> unique_participants
       (snd (unregister_from_activity ''Chess Club'' ''michael@mergington.edu'' activities))
   \<and> map_option participants
       (map_of (snd (unregister_from_activity ''Chess Club'' ''michael@mergington.edu''
          activities)) ''Chess Club'') =
       Some [''daniel@mergington.edu'']"
proof -
  have i: "unique_participants activities"
    by (simp add: activities_def unique_participants_def)
  have s: "map_option participants
       (map_of (snd (signup_for_activity ''Chess Club'' ''new@mergington.edu'' (Some ''teacher'')
          activities)) ''Chess Club'') =
       Some [''michael@mergington.edu'', ''daniel@mergington.edu'', ''new@mergington.edu'']"
    by (simp add: signup_for_activity_def activities_def)
  have r: "map_option participants
       (map_of (snd (unregister_from_activity ''Chess Club'' ''michael@mergington.edu''
          activities)) ''Chess Club'') =
       Some [''daniel@mergington.edu'']"
    by (simp add: unregister_from_activity_def activities_def)
  from i s r
    participants_stay_unique [of activities "''Chess Club''" "''new@mergington.edu''" "Some ''teacher''"]
    participants_stay_unique [of activities "''Chess Club''" "''michael@mergington.edu''" None]
  show ?thesis
    by blast
qed

text \<open>
  C10: a signup or an unregister that raises leaves the whole registry as it was, and
  the exceptions raised are the 401, the 404 and the two 400 of the handlers.
\<close>

theorem failure_leaves_registry:
  "(fst (signup_for_activity activity_name email current_user acts) = Inl err \<longrightarrow>
      snd (signup_for_activity activity_name email current_user acts) = acts
      \<and> err \<in> {HTTPException 401 ''Please log in as a teacher to register students'',
                HTTPException 404 ''Activity not found'',
                HTTPException 400 ''Student is already signed up''})
   \<and> (fst (unregister_from_activity activity_name email acts) = Inl err' \<longrightarrow>
      snd (unregister_from_activity activity_name email acts) = acts
      \<and> err' \<in> {HTTPException 404 ''Activity not found'',
                 HTTPException 400 ''Student is not signed up for this activity''})"
  by (auto simp: signup_for_activity_def unregister_from_activity_def
      split: option.splits if_splits)

theorem failure_leaves_registry_witness:
  "fst (signup_for_activity ''Chess Club'' ''michael@mergington.edu'' (Some ''teacher'') activities) =
     Inl (HTTPException 400 ''Student is already signed up'')
   \<and> snd (signup_for_activity ''Chess Club'' ''michael@mergington.edu'' (Some ''teacher'') activities) =
     activities
   \<and> fst (unregister_from_activity ''Chess Club'' ''nobody@mergington.edu'' activities) =
     Inl (HTTPException 400 ''Student is not signed up for this activity'')
   \<and> snd (unregister_from_activity ''Chess Club'' ''nobody@mergington.edu'' activities) =
     activities"
proof -
  have s: "fst (signup_for_activity ''Chess Club'' ''michael@mergington.edu'' (Some ''teacher'')
      activities) = Inl (HTTPException 400 ''Student is already signed up'')"
    by (simp add: signup_for_activity_def activities_def)
  have r: "fst (unregister_from_activity ''Chess Club'' ''nobody@mergington.edu'' activities) =
      Inl (HTTPException 400 ''Student is not signed up for this activity'')"
    by (simp add: unregister_from_activity_def activities_def)
  from s r
    failure_leaves_registry [of "''Chess Club''" "''michael@mergington.edu''" "Some ''teacher''"
      activities "HTTPException 400 ''Student is already signed up''"]
    failure_leaves_registry [of "''Chess Club''" "''nobody@mergington.edu''" None
      activities _ "HTTPException 400 ''Student is not signed up for this activity''"]
  show ?thesis
    by blast
qed

end
